theory Spec2Isabelle
  imports Main "HOL-Library.Word"
begin

section \<open>The GameObject gateway of unity-mcp\<close>

text \<open>
  A shallow embedding of \<^verbatim>\<open>manage_gameobject\<close> from
  \<^verbatim>\<open>Python/tools/manage_gameobject.py\<close>: the binding of the keyword arguments to
  the parameters of the signature, the construction and pruning of the parameter dictionary,
  the prefab path logic, the dispatch to the Unity connection and the translation of the
  host's response into the dictionary that is returned.
\<close>

subsection \<open>Python values\<close>

text \<open>
  The values that travel through the gateway: what the caller passes, what is put on the
  wire and what the host answers. A float is carried by its 64 bits; the gateway never
  computes with one. A string is its UTF-8 text. A dictionary is the list of its items in
  insertion order.
\<close>

datatype pyval =
    PNone
  | PBool bool
  | PInt int
  | PFloat "64 word"
  | PStr string
  | PList "pyval list"
  | PDict "(string \<times> pyval) list"

type_synonym pydict = "(string \<times> pyval) list"

text \<open>Python's truth value of an object, \<^verbatim>\<open>bool(v)\<close>; both zeros of a float are false.\<close>

fun truthy :: "pyval \<Rightarrow> bool" where
  "truthy PNone = False"
| "truthy (PBool b) = b"
| "truthy (PInt i) = (i \<noteq> 0)"
| "truthy (PFloat w) = (w \<noteq> 0 \<and> w \<noteq> 0x8000000000000000)"
| "truthy (PStr s) = (s \<noteq> [])"
| "truthy (PList xs) = (xs \<noteq> [])"
| "truthy (PDict d) = (d \<noteq> [])"

text \<open>\<^verbatim>\<open>k in d\<close>\<close>

definition dict_contains :: "string \<Rightarrow> pydict \<Rightarrow> bool" where
  "dict_contains k d = (map_of d k \<noteq> None)"

text \<open>\<^verbatim>\<open>d.get(k)\<close>: the value, or None when the key is missing.\<close>

definition dict_get :: "pydict \<Rightarrow> string \<Rightarrow> pyval" where
  "dict_get d k = (case map_of d k of None \<Rightarrow> PNone | Some v \<Rightarrow> v)"

text \<open>\<^verbatim>\<open>d.get(k, default)\<close>\<close>

definition dict_get_default :: "pydict \<Rightarrow> string \<Rightarrow> pyval \<Rightarrow> pyval" where
  "dict_get_default d k dflt = (case map_of d k of None \<Rightarrow> dflt | Some v \<Rightarrow> v)"

text \<open>\<^verbatim>\<open>d[k] = v\<close>: an existing key keeps its place, a new key goes to the end.\<close>

fun dict_setitem :: "string \<Rightarrow> pyval \<Rightarrow> pydict \<Rightarrow> pydict" where
  "dict_setitem k v [] = [(k, v)]"
| "dict_setitem k v (kv # d) = (if fst kv = k then (k, v) # d else kv # dict_setitem k v d)"

text \<open>\<^verbatim>\<open>d.pop(k, None)\<close>, for the dictionary it leaves behind.\<close>

definition dict_pop :: "string \<Rightarrow> pydict \<Rightarrow> pydict" where
  "dict_pop k d = filter (\<lambda>kv. fst kv \<noteq> k) d"

subsection \<open>Strings\<close>

text \<open>
  \<^verbatim>\<open>str.lower()\<close> on the letters A to Z. Every other byte is left alone: the only use
  of the lowered text is the test for the suffix \<^verbatim>\<open>.prefab\<close>, and no character outside
  A to Z lowers to one of the characters of that suffix.
\<close>

definition lower_char :: "char \<Rightarrow> char" where
  "lower_char c =
     (let n = (of_char c :: nat) in if 65 \<le> n \<and> n \<le> 90 then char_of (n + 32) else c)"

definition lower :: "string \<Rightarrow> string" where
  "lower s = map lower_char s"

text \<open>\<^verbatim>\<open>s.endswith(t)\<close>\<close>

definition endswith :: "string \<Rightarrow> string \<Rightarrow> bool" where
  "endswith s t = (length t \<le> length s \<and> drop (length s - length t) s = t)"

text \<open>\<^verbatim>\<open>s.replace("\\", "/")\<close>: both texts are one character long.\<close>

definition replace_backslash :: "string \<Rightarrow> string" where
  "replace_backslash s = map (\<lambda>c. if c = CHR 0x5C then CHR ''/'' else c) s"

text \<open>
  What an f-string puts in place of \<^verbatim>\<open>{v}\<close> for a value of type
  \<^verbatim>\<open>Optional[str]\<close>: the string itself, and the text \<^verbatim>\<open>None\<close> for None.
\<close>

fun format_opt_str :: "string option \<Rightarrow> string" where
  "format_opt_str None = ''None''"
| "format_opt_str (Some s) = s"

subsection \<open>The parameters of the operation\<close>

text \<open>\<^verbatim>\<open>Union[str, int]\<close>\<close>

datatype str_or_int = AStr string | AnInt int

text \<open>\<^verbatim>\<open>Union[str, Dict[str, Any]]\<close>, an item of \<^verbatim>\<open>components_to_add\<close>.\<close>

datatype component_spec = ByName string | WithProperties pydict

text \<open>
  The parameters as the body of the function sees them, with the types of the signature
  (lines 9 to 40). The context parameter \<^verbatim>\<open>ctx\<close> is never read and is left out.
\<close>

record args =
  action :: string
  target :: "str_or_int option"
  search_method :: "string option"
  name :: "string option"
  tag :: "string option"
  parent :: "str_or_int option"
  position :: "64 word list option"
  rotation :: "64 word list option"
  scale :: "64 word list option"
  components_to_add :: "component_spec list option"
  primitive_type :: "string option"
  save_as_prefab :: "bool option"
  prefab_path :: "string option"
  prefab_folder :: "string option"
  new_name :: "string option"
  new_parent :: "str_or_int option"
  set_active :: "bool option"
  new_tag :: "string option"
  new_layer :: "str_or_int option"
  components_to_remove :: "string list option"
  component_properties :: "(string \<times> pydict) list option"
  search_term :: "string option"
  find_all :: "bool option"
  search_in_children :: "bool option"
  search_inactive :: "bool option"
  component_name :: "string option"

text \<open>
  A call names some of the keyword parameters and leaves the others out. Only
  \<^verbatim>\<open>action\<close> has no default and is always given.
\<close>

datatype 'a supplied = Omitted | Given 'a

record call =
  kw_action :: string
  kw_target :: "str_or_int option supplied"
  kw_search_method :: "string option supplied"
  kw_name :: "string option supplied"
  kw_tag :: "string option supplied"
  kw_parent :: "str_or_int option supplied"
  kw_position :: "64 word list option supplied"
  kw_rotation :: "64 word list option supplied"
  kw_scale :: "64 word list option supplied"
  kw_components_to_add :: "component_spec list option supplied"
  kw_primitive_type :: "string option supplied"
  kw_save_as_prefab :: "bool option supplied"
  kw_prefab_path :: "string option supplied"
  kw_prefab_folder :: "string option supplied"
  kw_new_name :: "string option supplied"
  kw_new_parent :: "str_or_int option supplied"
  kw_set_active :: "bool option supplied"
  kw_new_tag :: "string option supplied"
  kw_new_layer :: "str_or_int option supplied"
  kw_components_to_remove :: "string list option supplied"
  kw_component_properties :: "(string \<times> pydict) list option supplied"
  kw_search_term :: "string option supplied"
  kw_find_all :: "bool option supplied"
  kw_search_in_children :: "bool option supplied"
  kw_search_inactive :: "bool option supplied"
  kw_component_name :: "string option supplied"

text \<open>A parameter takes the value the call gives, or its default when the call leaves it out.\<close>

fun bound :: "'a \<Rightarrow> 'a supplied \<Rightarrow> 'a" where
  "bound dflt Omitted = dflt"
| "bound dflt (Given v) = v"

text \<open>The defaults of the signature, lines 12 to 40.\<close>

definition bind :: "call \<Rightarrow> args" where
  "bind c =
     \<lparr> action = kw_action c,
       target = bound None (kw_target c),
       search_method = bound None (kw_search_method c),
       name = bound None (kw_name c),
       tag = bound None (kw_tag c),
       parent = bound None (kw_parent c),
       position = bound None (kw_position c),
       rotation = bound None (kw_rotation c),
       scale = bound None (kw_scale c),
       components_to_add = bound None (kw_components_to_add c),
       primitive_type = bound None (kw_primitive_type c),
       save_as_prefab = bound (Some False) (kw_save_as_prefab c),
       prefab_path = bound None (kw_prefab_path c),
       prefab_folder = bound (Some ''Assets/Prefabs'') (kw_prefab_folder c),
       new_name = bound None (kw_new_name c),
       new_parent = bound None (kw_new_parent c),
       set_active = bound None (kw_set_active c),
       new_tag = bound None (kw_new_tag c),
       new_layer = bound None (kw_new_layer c),
       components_to_remove = bound None (kw_components_to_remove c),
       component_properties = bound None (kw_component_properties c),
       search_term = bound None (kw_search_term c),
       find_all = bound (Some False) (kw_find_all c),
       search_in_children = bound (Some False) (kw_search_in_children c),
       search_inactive = bound (Some False) (kw_search_inactive c),
       component_name = bound None (kw_component_name c) \<rparr>"

text \<open>The call that gives the action and nothing else.\<close>

definition only_action :: "string \<Rightarrow> call" where
  "only_action act =
     \<lparr> kw_action = act,
       kw_target = Omitted,
       kw_search_method = Omitted,
       kw_name = Omitted,
       kw_tag = Omitted,
       kw_parent = Omitted,
       kw_position = Omitted,
       kw_rotation = Omitted,
       kw_scale = Omitted,
       kw_components_to_add = Omitted,
       kw_primitive_type = Omitted,
       kw_save_as_prefab = Omitted,
       kw_prefab_path = Omitted,
       kw_prefab_folder = Omitted,
       kw_new_name = Omitted,
       kw_new_parent = Omitted,
       kw_set_active = Omitted,
       kw_new_tag = Omitted,
       kw_new_layer = Omitted,
       kw_components_to_remove = Omitted,
       kw_component_properties = Omitted,
       kw_search_term = Omitted,
       kw_find_all = Omitted,
       kw_search_in_children = Omitted,
       kw_search_inactive = Omitted,
       kw_component_name = Omitted \<rparr>"

subsection \<open>Typed parameters as Python values\<close>

fun of_str_or_int :: "str_or_int \<Rightarrow> pyval" where
  "of_str_or_int (AStr s) = PStr s"
| "of_str_or_int (AnInt i) = PInt i"

fun of_component_spec :: "component_spec \<Rightarrow> pyval" where
  "of_component_spec (ByName s) = PStr s"
| "of_component_spec (WithProperties d) = PDict d"

definition of_floats :: "64 word list \<Rightarrow> pyval" where
  "of_floats xs = PList (map PFloat xs)"

definition of_component_specs :: "component_spec list \<Rightarrow> pyval" where
  "of_component_specs xs = PList (map of_component_spec xs)"

definition of_strs :: "string list \<Rightarrow> pyval" where
  "of_strs xs = PList (map PStr xs)"

definition of_properties :: "(string \<times> pydict) list \<Rightarrow> pyval" where
  "of_properties d = PDict (map (\<lambda>kv. (fst kv, PDict (snd kv))) d)"

text \<open>A parameter of type \<^verbatim>\<open>Optional[T]\<close> as a value: None, or the value it holds.\<close>

fun opt :: "('a \<Rightarrow> pyval) \<Rightarrow> 'a option \<Rightarrow> pyval" where
  "opt f None = PNone"
| "opt f (Some x) = f x"

subsection \<open>The request\<close>

text \<open>The dictionary literal of lines 67 to 94, in its order.\<close>

definition build_params :: "args \<Rightarrow> pydict" where
  "build_params a =
     [ (''action'', PStr (action a)),
       (''target'', opt of_str_or_int (target a)),
       (''searchMethod'', opt PStr (search_method a)),
       (''name'', opt PStr (name a)),
       (''tag'', opt PStr (tag a)),
       (''parent'', opt of_str_or_int (parent a)),
       (''position'', opt of_floats (position a)),
       (''rotation'', opt of_floats (rotation a)),
       (''scale'', opt of_floats (scale a)),
       (''componentsToAdd'', opt of_component_specs (components_to_add a)),
       (''primitiveType'', opt PStr (primitive_type a)),
       (''saveAsPrefab'', opt PBool (save_as_prefab a)),
       (''prefabPath'', opt PStr (prefab_path a)),
       (''prefabFolder'', opt PStr (prefab_folder a)),
       (''newName'', opt PStr (new_name a)),
       (''newParent'', opt of_str_or_int (new_parent a)),
       (''setActive'', opt PBool (set_active a)),
       (''newTag'', opt PStr (new_tag a)),
       (''newLayer'', opt of_str_or_int (new_layer a)),
       (''componentsToRemove'', opt of_strs (components_to_remove a)),
       (''componentProperties'', opt of_properties (component_properties a)),
       (''searchTerm'', opt PStr (search_term a)),
       (''findAll'', opt PBool (find_all a)),
       (''searchInChildren'', opt PBool (search_in_children a)),
       (''searchInactive'', opt PBool (search_inactive a)),
       (''componentName'', opt PStr (component_name a)) ]"

text \<open>Line 95: \<^verbatim>\<open>{k: v for k, v in params.items() if v is not None}\<close>\<close>

definition prune :: "pydict \<Rightarrow> pydict" where
  "prune d = filter (\<lambda>kv. snd kv \<noteq> PNone) d"

text \<open>The two dictionaries that lines 101 and 107 return without a dispatch.\<close>

definition missing_name :: pydict where
  "missing_name =
     [ (''success'', PBool False),
       (''message'', PStr ''Cannot create default prefab path: 'name' parameter is missing.'') ]"

definition invalid_prefab_path :: "string \<Rightarrow> pydict" where
  "invalid_prefab_path p =
     [ (''success'', PBool False),
       (''message'',
        PStr (''Invalid prefab_path: '' @ [CHR 0x27] @ p @ [CHR 0x27]
              @ '' must end with .prefab'')) ]"

text \<open>
  Lines 98 to 107. \<open>Inl\<close> is an early return of the function, \<open>Inr\<close> the dictionary the
  function goes on with. The pruned dictionary holds \<^verbatim>\<open>prefabPath\<close> exactly when the
  parameter \<^verbatim>\<open>prefab_path\<close> is not None, and then the parameter is its value; the same
  holds of \<^verbatim>\<open>name\<close> (lemmas \<open>pruned_prefabPath\<close> and \<open>pruned_name\<close> below), so the
  membership tests and the subscriptions of the source read the parameters here.
\<close>

definition prefab_path_logic :: "args \<Rightarrow> pydict \<Rightarrow> pydict + pydict" where
  "prefab_path_logic a params =
     (if action a = ''create'' \<and> truthy (dict_get params ''saveAsPrefab'') then
        (case prefab_path a of
           None \<Rightarrow>
             (case name a of
                None \<Rightarrow> Inl missing_name
              | Some n \<Rightarrow>
                  if n = [] then Inl missing_name
                  else
                    let constructed_path =
                          format_opt_str (prefab_folder a) @ ''/'' @ n @ ''.prefab''
                    in Inr (dict_setitem ''prefabPath''
                              (PStr (replace_backslash constructed_path)) params))
         | Some p \<Rightarrow>
             if \<not> endswith (lower p) ''.prefab'' then Inl (invalid_prefab_path p)
             else Inr params)
      else Inr params)"

text \<open>
  Lines 66 to 110, the request normaliser: the payload for the transport, or the
  dictionary of a local failure. Line 110 pops the key \<^verbatim>\<open>prefab_folder\<close>.
\<close>

definition request_normalizer :: "args \<Rightarrow> pydict + pydict" where
  "request_normalizer a =
     (case prefab_path_logic a (prune (build_params a)) of
        Inl failure \<Rightarrow> Inl failure
      | Inr params \<Rightarrow> Inr (dict_pop ''prefab_folder'' params))"

subsection \<open>The transport\<close>

text \<open>
  An exception carries the text \<^verbatim>\<open>str(e)\<close>. \<open>Exception\<close> is an instance of the class
  \<^verbatim>\<open>Exception\<close>; \<open>SystemExiting\<close> is one that is not: \<^verbatim>\<open>KeyboardInterrupt\<close>,
  \<^verbatim>\<open>SystemExit\<close>, \<^verbatim>\<open>GeneratorExit\<close> and what else derives from
  \<^verbatim>\<open>BaseException\<close> alone.
\<close>

datatype fault = Exception string | SystemExiting string

text \<open>What a call of \<^verbatim>\<open>send_command\<close> does: it returns the host's response or raises.\<close>

datatype outcome = Returned pydict | Raised fault

text \<open>
  The module \<^verbatim>\<open>unity_connection\<close> is an external collaborator, so the connection is a
  parameter: \<^verbatim>\<open>get_unity_connection()\<close> raises or gives a connection, and a connection
  is its method \<^verbatim>\<open>send_command(command, params)\<close>.
\<close>

type_synonym connection = "string \<Rightarrow> pydict \<Rightarrow> outcome"

type_synonym unity = "fault + connection"

text \<open>
  Line 116, \<^verbatim>\<open>get_unity_connection().send_command(command, params)\<close>: its outcome, and
  the calls of \<^verbatim>\<open>send_command\<close> it makes, each with its command name and payload.
\<close>

definition dispatch :: "unity \<Rightarrow> string \<Rightarrow> pydict \<Rightarrow> outcome" where
  "dispatch get_unity_connection command params =
     (case get_unity_connection of
        Inl e \<Rightarrow> Raised e
      | Inr send_command \<Rightarrow> send_command command params)"

definition dispatched :: "unity \<Rightarrow> string \<Rightarrow> pydict \<Rightarrow> (string \<times> pydict) list" where
  "dispatched get_unity_connection command params =
     (case get_unity_connection of
        Inl e \<Rightarrow> []
      | Inr send_command \<Rightarrow> [(command, params)])"

text \<open>A connection that has the same outcome for every command.\<close>

definition answering :: "outcome \<Rightarrow> connection" where
  "answering out command params = out"

subsection \<open>The response\<close>

text \<open>Lines 120 to 123.\<close>

definition response_envelope :: "pydict \<Rightarrow> pydict" where
  "response_envelope response =
     (if truthy (dict_get response ''success'') then
        [ (''success'', PBool True),
          (''message'',
           dict_get_default response ''message'' (PStr ''GameObject operation successful.'')),
          (''data'', dict_get response ''data'') ]
      else
        [ (''success'', PBool False),
          (''message'',
           dict_get_default response ''error''
             (PStr ''An unknown error occurred during GameObject management.'')) ])"

subsection \<open>The operation\<close>

text \<open>
  One run of the function: what the caller gets, a returned dictionary (\<open>Inr\<close>) or an
  exception that leaves the function (\<open>Inl\<close>), and the calls of \<^verbatim>\<open>send_command\<close> that
  were made.
\<close>

record run =
  returned :: "fault + pydict"
  calls :: "(string \<times> pydict) list"

text \<open>Lines 125 and 126: \<^verbatim>\<open>except Exception as e\<close>.\<close>

fun handler :: "fault \<Rightarrow> fault + pydict" where
  "handler (Exception detail) =
     Inr [ (''success'', PBool False),
           (''message'', PStr (''Python error managing GameObject: '' @ detail)) ]"
| "handler (SystemExiting detail) = Inl (SystemExiting detail)"

text \<open>Lines 62 to 126.\<close>

definition manage_gameobject :: "unity \<Rightarrow> args \<Rightarrow> run" where
  "manage_gameobject get_unity_connection a =
     (case request_normalizer a of
        Inl failure \<Rightarrow> \<lparr> returned = Inr failure, calls = [] \<rparr>
      | Inr params \<Rightarrow>
          (case dispatch get_unity_connection ''manage_gameobject'' params of
             Raised e \<Rightarrow>
               \<lparr> returned = handler e,
                 calls = dispatched get_unity_connection ''manage_gameobject'' params \<rparr>
           | Returned response \<Rightarrow>
               \<lparr> returned = Inr (response_envelope response),
                 calls = dispatched get_unity_connection ''manage_gameobject'' params \<rparr>))"

section \<open>Facts about the dictionaries\<close>

lemma build_params_keys:
  "map fst (build_params a) =
   [''action'', ''target'', ''searchMethod'', ''name'', ''tag'', ''parent'', ''position'',
    ''rotation'', ''scale'', ''componentsToAdd'', ''primitiveType'', ''saveAsPrefab'',
    ''prefabPath'', ''prefabFolder'', ''newName'', ''newParent'', ''setActive'', ''newTag'',
    ''newLayer'', ''componentsToRemove'', ''componentProperties'', ''searchTerm'', ''findAll'',
    ''searchInChildren'', ''searchInactive'', ''componentName'']"
  by (simp add: build_params_def)

lemma build_params_distinct: "distinct (map fst (build_params a))"
  unfolding build_params_keys by simp

lemma map_of_prune:
  "distinct (map fst d) \<Longrightarrow>
   map_of (prune d) k = (case map_of d k of None \<Rightarrow> None | Some v \<Rightarrow> if v = PNone then None else Some v)"
proof (induction d)
  case Nil
  then show ?case by (simp add: prune_def)
next
  case (Cons kv d)
  obtain k' v' where kv: "kv = (k', v')" by (cases kv)
  from Cons.prems have nin: "k' \<notin> fst ` set d" and dist: "distinct (map fst d)"
    by (simp_all add: kv)
  have ih: "map_of (prune d) k = (case map_of d k of None \<Rightarrow> None | Some v \<Rightarrow> if v = PNone then None else Some v)"
    using Cons.IH dist by simp
  show ?case
  proof (cases "k = k'")
    case True
    with nin have "map_of d k = None" by (simp add: map_of_eq_None_iff)
    with ih True show ?thesis by (simp add: prune_def kv)
  next
    case False
    with ih show ?thesis by (simp add: prune_def kv)
  qed
qed

lemma map_of_dict_setitem:
  "map_of (dict_setitem k v d) k' = (if k' = k then Some v else map_of d k')"
  by (induction d) auto

lemma map_of_dict_pop:
  "map_of (dict_pop k d) k' = (if k' = k then None else map_of d k')"
  by (induction d) (auto simp: dict_pop_def)

lemma dict_pop_absent: "k \<notin> fst ` set d \<Longrightarrow> dict_pop k d = d"
  by (induction d) (auto simp: dict_pop_def)

section \<open>Facts about the request\<close>

text \<open>
  What the pruned dictionary holds under a key, and what the tests of the prefab path logic
  read from it: \<^verbatim>\<open>params.get("saveAsPrefab")\<close> is true exactly when the parameter is
  True, \<^verbatim>\<open>"prefabPath" in params\<close> exactly when \<^verbatim>\<open>prefab_path\<close> is not None, and
  \<^verbatim>\<open>"name" in params\<close> exactly when \<^verbatim>\<open>name\<close> is not None.
\<close>

lemma pruned_lookup:
  "map_of (prune (build_params a)) k =
     (case map_of (build_params a) k of
        None \<Rightarrow> None
      | Some v \<Rightarrow> if v = PNone then None else Some v)"
  by (rule map_of_prune) (rule build_params_distinct)

lemma opt_eq_PNone [simp]:
  "(opt PStr x = PNone) = (x = None)"
  "(opt PBool y = PNone) = (y = None)"
  by (cases x, simp_all) (cases y, simp_all)

lemma pruned_saveAsPrefab:
  "truthy (dict_get (prune (build_params a)) ''saveAsPrefab'') = (save_as_prefab a = Some True)"
proof -
  have "map_of (build_params a) ''saveAsPrefab'' = Some (opt PBool (save_as_prefab a))"
    by (simp add: build_params_def)
  then show ?thesis
    by (cases "save_as_prefab a") (simp_all add: dict_get_def pruned_lookup)
qed

lemma pruned_prefabPath:
  "dict_contains ''prefabPath'' (prune (build_params a)) = (prefab_path a \<noteq> None)"
  "prefab_path a = Some p \<Longrightarrow> map_of (prune (build_params a)) ''prefabPath'' = Some (PStr p)"
proof -
  have "map_of (build_params a) ''prefabPath'' = Some (opt PStr (prefab_path a))"
    by (simp add: build_params_def)
  then show "dict_contains ''prefabPath'' (prune (build_params a)) = (prefab_path a \<noteq> None)"
    and "prefab_path a = Some p \<Longrightarrow> map_of (prune (build_params a)) ''prefabPath'' = Some (PStr p)"
    by (simp_all add: dict_contains_def pruned_lookup)
qed

lemma pruned_name:
  "dict_contains ''name'' (prune (build_params a)) = (name a \<noteq> None)"
  "name a = Some n \<Longrightarrow> map_of (prune (build_params a)) ''name'' = Some (PStr n)"
proof -
  have "map_of (build_params a) ''name'' = Some (opt PStr (name a))"
    by (simp add: build_params_def)
  then show "dict_contains ''name'' (prune (build_params a)) = (name a \<noteq> None)"
    and "name a = Some n \<Longrightarrow> map_of (prune (build_params a)) ''name'' = Some (PStr n)"
    by (simp_all add: dict_contains_def pruned_lookup)
qed

lemma prune_keys: "fst ` set (prune d) \<subseteq> fst ` set d"
  by (auto simp: prune_def)

lemma dict_setitem_keys: "fst ` set (dict_setitem k v d) = insert k (fst ` set d)"
  by (induction d) auto

lemma prefab_folder_not_a_key: "''prefab_folder'' \<notin> fst ` set (build_params a)"
proof -
  have "''prefab_folder'' \<notin> set (map fst (build_params a))"
    unfolding build_params_keys by simp
  then show ?thesis by simp
qed

lemma pop_leaves_pruned:
  "dict_pop ''prefab_folder'' (prune (build_params a)) = prune (build_params a)"
  using prune_keys [of "build_params a"] prefab_folder_not_a_key [of a]
  by (intro dict_pop_absent) blast

lemma pop_leaves_derived:
  "dict_pop ''prefab_folder'' (dict_setitem ''prefabPath'' v (prune (build_params a)))
     = dict_setitem ''prefabPath'' v (prune (build_params a))"
proof (rule dict_pop_absent)
  show "''prefab_folder'' \<notin> fst ` set (dict_setitem ''prefabPath'' v (prune (build_params a)))"
    using prune_keys [of "build_params a"] prefab_folder_not_a_key [of a]
    by (auto simp: dict_setitem_keys)
qed

lemma request_normalizer_eq:
  "request_normalizer a =
     (if action a = ''create'' \<and> save_as_prefab a = Some True then
        (case prefab_path a of
           None \<Rightarrow>
             (case name a of
                None \<Rightarrow> Inl missing_name
              | Some n \<Rightarrow>
                  if n = [] then Inl missing_name
                  else Inr (dict_setitem ''prefabPath''
                         (PStr (replace_backslash
                            (format_opt_str (prefab_folder a) @ ''/'' @ n @ ''.prefab'')))
                         (prune (build_params a))))
         | Some p \<Rightarrow>
             if \<not> endswith (lower p) ''.prefab'' then Inl (invalid_prefab_path p)
             else Inr (prune (build_params a)))
      else Inr (prune (build_params a)))"
  by (simp add: request_normalizer_def prefab_path_logic_def pruned_saveAsPrefab
      pop_leaves_pruned pop_leaves_derived split: option.splits)

lemma calls_with_connection:
  "calls (manage_gameobject (Inr send_command) a) =
     (case request_normalizer a of
        Inl failure \<Rightarrow> []
      | Inr p \<Rightarrow> [(''manage_gameobject'', p)])"
  by (simp add: manage_gameobject_def dispatch_def dispatched_def
      split: sum.splits outcome.splits)



lemma injections_not_None [simp]:
  "of_str_or_int u \<noteq> PNone" "of_floats fs \<noteq> PNone" "of_component_specs cs \<noteq> PNone"
  "of_strs ss \<noteq> PNone" "of_properties ps \<noteq> PNone"
  by (cases u) (simp_all add: of_floats_def of_component_specs_def of_strs_def of_properties_def)


lemmas run_defs =
  manage_gameobject_def request_normalizer_def prefab_path_logic_def build_params_def
  prune_def bind_def only_action_def dict_get_def dict_get_default_def dict_pop_def
  dispatch_def dispatched_def answering_def response_envelope_def missing_name_def
  invalid_prefab_path_def endswith_def lower_def lower_char_def replace_backslash_def
  of_floats_def of_component_specs_def of_strs_def of_properties_def

section \<open>The payload\<close>




text \<open>
  C2 does not hold of the code: line 110 pops the key \<^verbatim>\<open>prefab_folder\<close>, and the
  dictionary holds the folder under \<^verbatim>\<open>prefabFolder\<close>, so the folder stays in the
  payload. For \<^verbatim>\<open>action="create", save_as_prefab=True, name="Cube"\<close> the transport
  receives both \<^verbatim>\<open>prefabFolder\<close> and the derived \<^verbatim>\<open>prefabPath\<close>.
\<close>

theorem prefab_folder_is_forwarded:
  "calls (manage_gameobject (Inr (answering (Returned [])))
     (bind ((only_action ''create'')
        \<lparr> kw_name := Given (Some ''Cube''), kw_save_as_prefab := Given (Some True) \<rparr>)))
     = [(''manage_gameobject'',
         [ (''action'', PStr ''create''),
           (''name'', PStr ''Cube''),
           (''saveAsPrefab'', PBool True),
           (''prefabFolder'', PStr ''Assets/Prefabs''),
           (''findAll'', PBool False),
           (''searchInChildren'', PBool False),
           (''searchInactive'', PBool False),
           (''prefabPath'', PStr ''Assets/Prefabs/Cube.prefab'') ])]"
  by (simp add: run_defs)

section \<open>The prefab path\<close>

text \<open>
  The derived path when the folder is a string, the one the caller gave or the default
  \<^verbatim>\<open>Assets/Prefabs\<close> of the signature: the text \<^verbatim>\<open>{prefab_folder}/{name}.prefab\<close>
  with every backslash replaced by a forward slash.
\<close>

lemma derived_path_of_string_folder:
  assumes "action (bind c) = ''create''"
    and "save_as_prefab (bind c) = Some True"
    and "prefab_path (bind c) = None"
    and "name (bind c) = Some n" and "n \<noteq> []"
    and "bound (Some ''Assets/Prefabs'') (kw_prefab_folder c) = Some folder"
  shows "\<exists>p. calls (manage_gameobject (Inr send_command) (bind c)) = [(''manage_gameobject'', p)]
           \<and> map_of p ''prefabPath''
               = Some (PStr (replace_backslash (folder @ ''/'' @ n @ ''.prefab'')))"
proof -
  have "prefab_folder (bind c) = bound (Some ''Assets/Prefabs'') (kw_prefab_folder c)"
    by (simp add: bind_def)
  with assms show ?thesis
    by (simp add: calls_with_connection request_normalizer_eq map_of_dict_setitem)
qed

text \<open>
  C3 does not hold of the code when the caller passes \<^verbatim>\<open>prefab_folder=None\<close>. Line 95
  prunes that folder as absent, and the claim then asks for the constant
  \<^verbatim>\<open>Assets/Prefabs\<close>; but the f-string of line 103 formats the parameter itself, which
  the comment of line 102 takes to have its default, and renders None as the text
  \<^verbatim>\<open>None\<close>. For \<^verbatim>\<open>action="create", name="Cube", save_as_prefab=True,
  prefab_folder=None\<close> no folder is in the payload and the transport receives the
  \<^verbatim>\<open>prefabPath\<close> \<^verbatim>\<open>None/Cube.prefab\<close>.
\<close>

theorem none_folder_in_prefab_path:
  "prefab_folder (bind ((only_action ''create'')
      \<lparr> kw_name := Given (Some ''Cube''), kw_save_as_prefab := Given (Some True),
        kw_prefab_folder := Given None \<rparr>)) = None \<and>
   calls (manage_gameobject (Inr (answering (Returned [])))
     (bind ((only_action ''create'')
        \<lparr> kw_name := Given (Some ''Cube''), kw_save_as_prefab := Given (Some True),
          kw_prefab_folder := Given None \<rparr>)))
     = [(''manage_gameobject'',
         [ (''action'', PStr ''create''),
           (''name'', PStr ''Cube''),
           (''saveAsPrefab'', PBool True),
           (''findAll'', PBool False),
           (''searchInChildren'', PBool False),
           (''searchInactive'', PBool False),
           (''prefabPath'', PStr ''None/Cube.prefab'') ])]"
  by (simp add: run_defs)

text \<open>
  C4. For action \<^verbatim>\<open>create\<close>, \<^verbatim>\<open>save_as_prefab\<close> True, no \<^verbatim>\<open>prefab_path\<close> and
  a \<^verbatim>\<open>name\<close> that is absent or empty, the function returns the failure with the message
  \<^verbatim>\<open>Cannot create default prefab path: 'name' parameter is missing.\<close> and makes no call
  of \<^verbatim>\<open>send_command\<close>, whatever the connection would do.
\<close>

theorem missing_name_fails_locally:
  assumes "action a = ''create''" and "save_as_prefab a = Some True"
    and "prefab_path a = None" and "name a = None \<or> name a = Some []"
  shows "manage_gameobject unity a
           = \<lparr> returned = Inr [ (''success'', PBool False),
                               (''message'', PStr ''Cannot create default prefab path: 'name' parameter is missing.'') ],
               calls = [] \<rparr>"
  using assms
  by (auto simp: manage_gameobject_def request_normalizer_eq missing_name_def)

theorem missing_name_fails_locally_witness:
  "action (bind ((only_action ''create'') \<lparr> kw_save_as_prefab := Given (Some True) \<rparr>)) = ''create'' \<and>
   manage_gameobject (Inr (answering (Returned [(''success'', PBool True)])))
       (bind ((only_action ''create'') \<lparr> kw_save_as_prefab := Given (Some True) \<rparr>))
     = \<lparr> returned = Inr [ (''success'', PBool False),
                         (''message'', PStr ''Cannot create default prefab path: 'name' parameter is missing.'') ],
         calls = [] \<rparr>"
proof -
  let ?a = "bind ((only_action ''create'') \<lparr> kw_save_as_prefab := Given (Some True) \<rparr>)"
  have h1: "action ?a = ''create''" by (simp add: bind_def only_action_def)
  have h2: "save_as_prefab ?a = Some True" by (simp add: bind_def only_action_def)
  have h3: "prefab_path ?a = None" by (simp add: bind_def only_action_def)
  have h4: "name ?a = None \<or> name ?a = Some []" by (simp add: bind_def only_action_def)
  from missing_name_fails_locally [OF h1 h2 h3 h4] h1 show ?thesis by simp
qed

text \<open>
  C5. For action \<^verbatim>\<open>create\<close>, \<^verbatim>\<open>save_as_prefab\<close> True and a \<^verbatim>\<open>prefab_path\<close>
  whose lowered text does not end with \<^verbatim>\<open>.prefab\<close>, the function returns a failure
  whose message holds the path and the required suffix, and makes no call of
  \<^verbatim>\<open>send_command\<close>.
\<close>

theorem wrong_extension_fails_locally:
  assumes "action a = ''create''" and "save_as_prefab a = Some True"
    and "prefab_path a = Some p" and "\<not> endswith (lower p) ''.prefab''"
  shows "manage_gameobject unity a
           = \<lparr> returned = Inr [ (''success'', PBool False),
                               (''message'',
                                PStr (''Invalid prefab_path: '' @ [CHR 0x27] @ p @ [CHR 0x27]
                                      @ '' must end with .prefab'')) ],
               calls = [] \<rparr>"
  using assms
  by (simp add: manage_gameobject_def request_normalizer_eq invalid_prefab_path_def)

theorem wrong_extension_fails_locally_witness:
  "\<not> endswith (lower ''Assets/Foo.txt'') ''.prefab'' \<and>
   manage_gameobject (Inr (answering (Returned [(''success'', PBool True)])))
       (bind ((only_action ''create'')
          \<lparr> kw_save_as_prefab := Given (Some True),
            kw_prefab_path := Given (Some ''Assets/Foo.txt'') \<rparr>))
     = \<lparr> returned = Inr [ (''success'', PBool False),
                         (''message'',
                          PStr ''Invalid prefab_path: 'Assets/Foo.txt' must end with .prefab'') ],
         calls = [] \<rparr>"
proof -
  let ?a = "bind ((only_action ''create'')
          \<lparr> kw_save_as_prefab := Given (Some True),
            kw_prefab_path := Given (Some ''Assets/Foo.txt'') \<rparr>)"
  have h1: "action ?a = ''create''" by (simp add: bind_def only_action_def)
  have h2: "save_as_prefab ?a = Some True" by (simp add: bind_def only_action_def)
  have h3: "prefab_path ?a = Some ''Assets/Foo.txt''" by (simp add: bind_def only_action_def)
  have h4: "\<not> endswith (lower ''Assets/Foo.txt'') ''.prefab''"
    by code_simp
  from wrong_extension_fails_locally [OF h1 h2 h3 h4] h4 show ?thesis by simp
qed

text \<open>
  C10. For action \<^verbatim>\<open>create\<close>, \<^verbatim>\<open>save_as_prefab\<close> True and a \<^verbatim>\<open>prefab_path\<close>
  whose lowered text ends with \<^verbatim>\<open>.prefab\<close>, the payload handed to the transport holds
  the path as the caller gave it: its backslashes and its capitals are kept.
\<close>

theorem explicit_prefab_path_verbatim:
  assumes "action a = ''create''" and "save_as_prefab a = Some True"
    and "prefab_path a = Some p" and "endswith (lower p) ''.prefab''"
  shows "\<exists>params. calls (manage_gameobject (Inr send_command) a)
                     = [(''manage_gameobject'', params)]
                 \<and> map_of params ''prefabPath'' = Some (PStr p)"
  using assms
  by (simp add: calls_with_connection request_normalizer_eq pruned_prefabPath)

theorem explicit_prefab_path_verbatim_witness:
  "endswith (lower (''Assets'' @ [CHR 0x5C] @ ''Box.PreFab'')) ''.prefab'' \<and>
   (\<exists>params. calls (manage_gameobject (Inr (answering (Returned [])))
        (bind ((only_action ''create'')
           \<lparr> kw_save_as_prefab := Given (Some True),
             kw_prefab_path := Given (Some (''Assets'' @ [CHR 0x5C] @ ''Box.PreFab'')) \<rparr>)))
         = [(''manage_gameobject'', params)]
       \<and> map_of params ''prefabPath'' = Some (PStr (''Assets'' @ [CHR 0x5C] @ ''Box.PreFab'')))"
proof -
  let ?q = "''Assets'' @ [CHR 0x5C] @ ''Box.PreFab''"
  let ?a = "bind ((only_action ''create'')
           \<lparr> kw_save_as_prefab := Given (Some True), kw_prefab_path := Given (Some ?q) \<rparr>)"
  have h1: "action ?a = ''create''" by (simp add: bind_def only_action_def)
  have h2: "save_as_prefab ?a = Some True" by (simp add: bind_def only_action_def)
  have h3: "prefab_path ?a = Some ?q" by (simp add: bind_def only_action_def)
  have h4: "endswith (lower ?q) ''.prefab''"
    by code_simp
  from explicit_prefab_path_verbatim [OF h1 h2 h3 h4, of "answering (Returned [])"] h4
  show ?thesis by simp
qed

section \<open>The response\<close>

text \<open>
  C6, as stated, fails: for a host response with a true \<^verbatim>\<open>success\<close> and no
  \<^verbatim>\<open>data\<close>, the returned dictionary has a \<^verbatim>\<open>data\<close> entry all the same, and it
  holds None.
\<close>

theorem data_entry_without_host_data:
  "map_of [(''success'', PBool True)] ''data'' = None \<and>
   returned (manage_gameobject (Inr (answering (Returned [(''success'', PBool True)])))
      (bind (only_action ''find'')))
     = Inr [ (''success'', PBool True),
             (''message'', PStr ''GameObject operation successful.''),
             (''data'', PNone) ]"
  by (simp add: run_defs)

text \<open>
  C6, amended. For every host response whose \<^verbatim>\<open>success\<close> is True, the function
  returns \<^verbatim>\<open>success\<close> True, the host's \<^verbatim>\<open>message\<close> or the text
  \<^verbatim>\<open>GameObject operation successful.\<close> when the host sent none, and a \<^verbatim>\<open>data\<close>
  entry that is always there: the host's \<^verbatim>\<open>data\<close>, or None when the host sent none.
\<close>

theorem host_success_envelope:
  assumes "request_normalizer a = Inr p"
    and "dispatch unity ''manage_gameobject'' p = Returned response"
    and "map_of response ''success'' = Some (PBool True)"
  shows "returned (manage_gameobject unity a)
           = Inr [ (''success'', PBool True),
                   (''message'',
                    case map_of response ''message'' of
                      None \<Rightarrow> PStr ''GameObject operation successful.''
                    | Some m \<Rightarrow> m),
                   (''data'', case map_of response ''data'' of None \<Rightarrow> PNone | Some d \<Rightarrow> d) ]"
  using assms
  by (simp add: manage_gameobject_def response_envelope_def dict_get_def dict_get_default_def)

theorem host_success_envelope_witness:
  "request_normalizer (bind (only_action ''find''))
     = Inr [ (''action'', PStr ''find''),
             (''saveAsPrefab'', PBool False),
             (''prefabFolder'', PStr ''Assets/Prefabs''),
             (''findAll'', PBool False),
             (''searchInChildren'', PBool False),
             (''searchInactive'', PBool False) ] \<and>
   returned (manage_gameobject
       (Inr (answering (Returned [ (''success'', PBool True), (''message'', PStr ''ok''),
                                   (''data'', PDict [(''id'', PInt 5)]) ])))
       (bind (only_action ''find'')))
     = Inr [ (''success'', PBool True), (''message'', PStr ''ok''),
             (''data'', PDict [(''id'', PInt 5)]) ]"
proof -
  let ?p = "[ (''action'', PStr ''find''),
             (''saveAsPrefab'', PBool False),
             (''prefabFolder'', PStr ''Assets/Prefabs''),
             (''findAll'', PBool False),
             (''searchInChildren'', PBool False),
             (''searchInactive'', PBool False) ]"
  let ?r = "[ (''success'', PBool True), (''message'', PStr ''ok''),
              (''data'', PDict [(''id'', PInt 5)]) ]"
  have h1: "request_normalizer (bind (only_action ''find'')) = Inr ?p"
    by (simp add: run_defs)
  have h2: "dispatch (Inr (answering (Returned ?r))) ''manage_gameobject'' ?p = Returned ?r"
    by (simp add: dispatch_def answering_def)
  have h3: "map_of ?r ''success'' = Some (PBool True)" by simp
  from host_success_envelope [OF h1 h2 h3] h1 show ?thesis by simp
qed

text \<open>
  C7. For every host response whose \<^verbatim>\<open>success\<close> is False or absent, the function
  returns \<^verbatim>\<open>success\<close> False and the host's \<^verbatim>\<open>error\<close>, or the text
  \<^verbatim>\<open>An unknown error occurred during GameObject management.\<close> when the host sent
  none, and no \<^verbatim>\<open>data\<close> entry.
\<close>

theorem host_failure_envelope:
  assumes "request_normalizer a = Inr p"
    and "dispatch unity ''manage_gameobject'' p = Returned response"
    and "map_of response ''success'' = Some (PBool False) \<or> map_of response ''success'' = None"
  shows "returned (manage_gameobject unity a)
           = Inr [ (''success'', PBool False),
                   (''message'',
                    case map_of response ''error'' of
                      None \<Rightarrow> PStr ''An unknown error occurred during GameObject management.''
                    | Some e \<Rightarrow> e) ]"
  using assms
  by (auto simp: manage_gameobject_def response_envelope_def dict_get_def dict_get_default_def)

theorem host_failure_envelope_witness:
  "request_normalizer (bind (only_action ''find''))
     = Inr [ (''action'', PStr ''find''),
             (''saveAsPrefab'', PBool False),
             (''prefabFolder'', PStr ''Assets/Prefabs''),
             (''findAll'', PBool False),
             (''searchInChildren'', PBool False),
             (''searchInactive'', PBool False) ] \<and>
   returned (manage_gameobject
       (Inr (answering (Returned [ (''success'', PBool False), (''error'', PStr ''not found'') ])))
       (bind (only_action ''find'')))
     = Inr [ (''success'', PBool False), (''message'', PStr ''not found'') ]"
proof -
  let ?p = "[ (''action'', PStr ''find''),
             (''saveAsPrefab'', PBool False),
             (''prefabFolder'', PStr ''Assets/Prefabs''),
             (''findAll'', PBool False),
             (''searchInChildren'', PBool False),
             (''searchInactive'', PBool False) ]"
  let ?r = "[ (''success'', PBool False), (''error'', PStr ''not found'') ]"
  have h1: "request_normalizer (bind (only_action ''find'')) = Inr ?p"
    by (simp add: run_defs)
  have h2: "dispatch (Inr (answering (Returned ?r))) ''manage_gameobject'' ?p = Returned ?r"
    by (simp add: dispatch_def answering_def)
  have h3: "map_of ?r ''success'' = Some (PBool False) \<or> map_of ?r ''success'' = None" by simp
  from host_failure_envelope [OF h1 h2 h3] h1 show ?thesis by simp
qed

section \<open>Exceptions\<close>

text \<open>
  C8, as stated, fails: the handler of line 125 is \<^verbatim>\<open>except Exception\<close>, so an
  exception that is not an instance of \<^verbatim>\<open>Exception\<close>, such as the
  \<^verbatim>\<open>KeyboardInterrupt\<close> that interrupts a blocked \<^verbatim>\<open>send_command\<close>, leaves the
  function.
\<close>

theorem system_exit_leaves_the_function:
  "returned (manage_gameobject (Inr (answering (Raised (SystemExiting ''KeyboardInterrupt''))))
      (bind (only_action ''find'')))
     = Inl (SystemExiting ''KeyboardInterrupt'')"
  by (simp add: run_defs)

text \<open>
  C8, amended. An instance of \<^verbatim>\<open>Exception\<close> raised by
  \<^verbatim>\<open>get_unity_connection()\<close> or by \<^verbatim>\<open>send_command\<close> is caught and turned into the
  failure whose message is \<^verbatim>\<open>Python error managing GameObject: \<close> followed by
  \<^verbatim>\<open>str(e)\<close>. Unless the dispatch raises an exception that is not an instance of
  \<^verbatim>\<open>Exception\<close>, the function returns a dictionary with a boolean \<^verbatim>\<open>success\<close>,
  a \<^verbatim>\<open>message\<close> and at most one more entry, \<^verbatim>\<open>data\<close>.
\<close>

theorem exceptions_become_envelopes:
  "(request_normalizer a = Inr p \<and> dispatch unity ''manage_gameobject'' p = Raised (Exception d)
      \<longrightarrow> returned (manage_gameobject unity a)
            = Inr [ (''success'', PBool False),
                    (''message'', PStr (''Python error managing GameObject: '' @ d)) ]) \<and>
   ((\<forall>p d. request_normalizer a = Inr p
        \<longrightarrow> dispatch unity ''manage_gameobject'' p \<noteq> Raised (SystemExiting d))
      \<longrightarrow> (\<exists>b m rest. returned (manage_gameobject unity a)
                         = Inr ((''success'', PBool b) # (''message'', m) # rest)
                     \<and> (rest = [] \<or> (\<exists>v. rest = [(''data'', v)]))))"
proof (intro conjI impI)
  assume "request_normalizer a = Inr p \<and> dispatch unity ''manage_gameobject'' p = Raised (Exception d)"
  then show "returned (manage_gameobject unity a)
            = Inr [ (''success'', PBool False),
                    (''message'', PStr (''Python error managing GameObject: '' @ d)) ]"
    by (simp add: manage_gameobject_def)
next
  assume quiet: "\<forall>p d. request_normalizer a = Inr p
        \<longrightarrow> dispatch unity ''manage_gameobject'' p \<noteq> Raised (SystemExiting d)"
  show "\<exists>b m rest. returned (manage_gameobject unity a)
                         = Inr ((''success'', PBool b) # (''message'', m) # rest)
                     \<and> (rest = [] \<or> (\<exists>v. rest = [(''data'', v)]))"
  proof (cases "request_normalizer a")
    case (Inl failure)
    then have "failure = missing_name \<or> (\<exists>q. failure = invalid_prefab_path q)"
      by (auto simp: request_normalizer_eq split: if_splits option.splits)
    with Inl show ?thesis
      by (auto simp: manage_gameobject_def missing_name_def invalid_prefab_path_def)
  next
    case (Inr p)
    show ?thesis
    proof (cases "dispatch unity ''manage_gameobject'' p")
      case (Returned response)
      with Inr show ?thesis
        by (auto simp: manage_gameobject_def response_envelope_def)
    next
      case (Raised e)
      with quiet Inr obtain d where "e = Exception d" by (cases e) auto
      with Inr Raised show ?thesis by (auto simp: manage_gameobject_def)
    qed
  qed
qed

theorem exceptions_become_envelopes_witness:
  "request_normalizer (bind (only_action ''find''))
     = Inr [ (''action'', PStr ''find''),
             (''saveAsPrefab'', PBool False),
             (''prefabFolder'', PStr ''Assets/Prefabs''),
             (''findAll'', PBool False),
             (''searchInChildren'', PBool False),
             (''searchInactive'', PBool False) ] \<and>
   returned (manage_gameobject (Inl (Exception ''Could not connect to Unity''))
       (bind (only_action ''find'')))
     = Inr [ (''success'', PBool False),
             (''message'', PStr ''Python error managing GameObject: Could not connect to Unity'') ]"
proof -
  let ?p = "[ (''action'', PStr ''find''),
             (''saveAsPrefab'', PBool False),
             (''prefabFolder'', PStr ''Assets/Prefabs''),
             (''findAll'', PBool False),
             (''searchInChildren'', PBool False),
             (''searchInactive'', PBool False) ]"
  let ?u = "Inl (Exception ''Could not connect to Unity'') :: unity"
  have h1: "request_normalizer (bind (only_action ''find'')) = Inr ?p"
    by (simp add: run_defs)
  have h2: "dispatch ?u ''manage_gameobject'' ?p = Raised (Exception ''Could not connect to Unity'')"
    by (simp add: dispatch_def)
  from exceptions_become_envelopes
         [of "bind (only_action ''find'')" ?p ?u "''Could not connect to Unity''"] h1 h2
  show ?thesis by simp
qed

end
